theory Spec2Isabelle
  imports Main "HOL-Library.Word" "HOL-Library.AList"
begin

section \<open>JavaScript values the client handles\<close>

text \<open>
  A JavaScript string is a sequence of UTF-16 code units. \<open>js\<close> turns a literal of
  Latin-1 characters into such a string.
\<close>

type_synonym jschar = "16 word"
type_synonym jsstring = "jschar list"

definition js :: "string \<Rightarrow> jsstring" where
  "js s = map (\<lambda>c. of_nat (of_char c)) s"

text \<open>
  A \<open>Date\<close> holds a time value: a whole number of milliseconds since the epoch, at
  most 8.64e15 in magnitude, or NaN (an invalid date).
\<close>

datatype Date = InvalidDate | TimeValue int

text \<open>
  The values that cross the client as bodies and results. The entity interfaces of
  \<open>domain.ts\<close> (\<open>Message\<close>, \<open>RegisterWebHookRequest\<close>, \<open>DeviceSettings\<close> and the
  others) are compile-time types of plain objects: at run time a body is the object
  the caller passed, with its own properties in insertion order. The client never
  computes with a number, so whole numbers stand for them.
\<close>

datatype jsvalue =
    VUndefined
  | VNull
  | VBoolean bool
  | VNumber int
  | VString jsstring
  | VDate Date
  | VArray "jsvalue list"
  | VObject "(jsstring \<times> jsvalue) list"

text \<open>
  What a JavaScript computation can throw, or a promise reject with: the three
  platform errors the client's own code can raise (\<open>btoa\<close> on a code unit above
  0xFF, \<open>new URL\<close> on an unparsable string, \<open>toISOString\<close> on an invalid date),
  and any other value, which only the transport produces.
\<close>

datatype jserror =
    InvalidCharacterError
  | TypeError
  | RangeError
  | Thrown jsvalue

text \<open>
  The state of the promise an asynchronous method returns: fulfilled with a value,
  rejected with an error, or never settled.
\<close>

datatype outcome = Fulfilled jsvalue | Rejected jserror | Pending

subsection \<open>\<open>btoa\<close>\<close>

text \<open>
  \<open>btoa\<close> throws \<open>InvalidCharacterError\<close> when the string holds a code unit above
  0xFF and otherwise returns the base64 encoding (RFC 4648, with padding) of the
  bytes.
\<close>

definition b64_alphabet :: jsstring where
  "b64_alphabet = js ''ABCDEFGHIJKLMNOPQRSTUVWXYZabcdefghijklmnopqrstuvwxyz0123456789+/''"

definition b64_digit :: "nat \<Rightarrow> jschar" where
  "b64_digit n = b64_alphabet ! (n mod 64)"

fun base64_encode :: "nat list \<Rightarrow> jsstring" where
  "base64_encode [] = []"
| "base64_encode [a] =
     [b64_digit (a div 4), b64_digit ((a mod 4) * 16)] @ js ''==''"
| "base64_encode [a, b] =
     [b64_digit (a div 4), b64_digit ((a mod 4) * 16 + b div 16),
      b64_digit ((b mod 16) * 4)] @ js ''=''"
| "base64_encode (a # b # c # rest) =
     [b64_digit (a div 4), b64_digit ((a mod 4) * 16 + b div 16),
      b64_digit ((b mod 16) * 4 + c div 64), b64_digit (c mod 64)] @ base64_encode rest"

definition btoa :: "jsstring \<Rightarrow> jserror + jsstring" where
  "btoa s = (if list_ex (\<lambda>c. 0xFF < c) s then Inl InvalidCharacterError
             else Inr (base64_encode (map unat s)))"

subsection \<open>\<open>Date.prototype.toISOString\<close>\<close>

text \<open>
  \<open>toISOString\<close> throws \<open>RangeError\<close> on an invalid date and otherwise prints the
  UTC date and time as \<open>YYYY-MM-DDTHH:mm:ss.sssZ\<close>, the year with a sign and six
  digits when it is outside 0..9999.
\<close>

definition digit :: "int \<Rightarrow> jschar" where
  "digit n = of_nat (48 + nat (n mod 10))"

definition pad2 :: "int \<Rightarrow> jsstring" where
  "pad2 n = [digit (n div 10), digit n]"

definition pad3 :: "int \<Rightarrow> jsstring" where
  "pad3 n = [digit (n div 100), digit (n div 10), digit n]"

definition pad4 :: "int \<Rightarrow> jsstring" where
  "pad4 n = [digit (n div 1000), digit (n div 100), digit (n div 10), digit n]"

definition pad6 :: "int \<Rightarrow> jsstring" where
  "pad6 n = [digit (n div 100000), digit (n div 10000), digit (n div 1000),
             digit (n div 100), digit (n div 10), digit n]"

text \<open>Year, month and day of the proleptic Gregorian calendar from a day number.\<close>

definition civil_from_days :: "int \<Rightarrow> int \<times> int \<times> int" where
  "civil_from_days day =
     (let z = day + 719468;
          era = z div 146097;
          doe = z mod 146097;
          yoe = (doe - doe div 1460 + doe div 36524 - doe div 146096) div 365;
          doy = doe - (365 * yoe + yoe div 4 - yoe div 100);
          mp = (5 * doy + 2) div 153;
          d = doy - (153 * mp + 2) div 5 + 1;
          m = (if mp < 10 then mp + 3 else mp - 9);
          y = yoe + era * 400 + (if m \<le> 2 then 1 else 0)
      in (y, m, d))"

definition year_string :: "int \<Rightarrow> jsstring" where
  "year_string y =
     (if 0 \<le> y \<and> y \<le> 9999 then pad4 y
      else (if y < 0 then js ''-'' else js ''+'') @ pad6 \<bar>y\<bar>)"

fun toISOString :: "Date \<Rightarrow> jserror + jsstring" where
  "toISOString InvalidDate = Inl RangeError"
| "toISOString (TimeValue t) =
     (if 8640000000000000 < \<bar>t\<bar> then Inl RangeError
      else
        (let ms = t mod 86400000;
             (y, m, d) = civil_from_days (t div 86400000)
         in Inr (year_string y @ js ''-'' @ pad2 m @ js ''-'' @ pad2 d @ js ''T''
                 @ pad2 (ms div 3600000) @ js '':'' @ pad2 (ms div 60000 mod 60)
                 @ js '':'' @ pad2 (ms div 1000 mod 60) @ js ''.'' @ pad3 (ms mod 1000)
                 @ js ''Z'')))"

definition bool_toString :: "bool \<Rightarrow> jsstring" where
  "bool_toString b = (if b then js ''true'' else js ''false'')"

subsection \<open>\<open>URL\<close> and \<open>URLSearchParams\<close>\<close>

text \<open>
  A parsed URL, as far as the client uses it: the serialised scheme, authority and
  path; the query string (absent or present); the list of name-value pairs of its
  \<open>searchParams\<close> object; the fragment. \<open>new URL(s)\<close> is the platform's parser; the
  operations that use it take it as the parameter \<open>newURL\<close>, which either throws or
  returns such a record.
\<close>

record URL =
  location :: jsstring
  query :: "jsstring option"
  searchParams :: "(jsstring \<times> jsstring) list"
  fragment :: "jsstring option"

type_synonym url_parser = "jsstring \<Rightarrow> jserror + URL"

text \<open>
  The \<open>application/x-www-form-urlencoded\<close> serialiser: each name and value is
  converted to scalar values (a lone surrogate becomes U+FFFD), encoded in UTF-8, and
  every byte other than an ASCII letter or digit or one of \<open>* - . _\<close> is written as
  \<open>%XX\<close>, a space as \<open>+\<close>.
\<close>

definition is_high_surrogate :: "jschar \<Rightarrow> bool" where
  "is_high_surrogate c \<longleftrightarrow> 0xD800 \<le> c \<and> c \<le> 0xDBFF"

definition is_low_surrogate :: "jschar \<Rightarrow> bool" where
  "is_low_surrogate c \<longleftrightarrow> 0xDC00 \<le> c \<and> c \<le> 0xDFFF"

definition lone_unit :: "jschar \<Rightarrow> nat" where
  "lone_unit c = (if is_high_surrogate c \<or> is_low_surrogate c then 0xFFFD else unat c)"

fun scalar_values :: "jsstring \<Rightarrow> nat list" where
  "scalar_values [] = []"
| "scalar_values [c] = [lone_unit c]"
| "scalar_values (c # d # cs) =
     (if is_high_surrogate c \<and> is_low_surrogate d
      then (0x10000 + (unat c - 0xD800) * 0x400 + (unat d - 0xDC00)) # scalar_values cs
      else lone_unit c # scalar_values (d # cs))"

definition utf8 :: "nat \<Rightarrow> nat list" where
  "utf8 n =
     (if n < 0x80 then [n]
      else if n < 0x800 then [0xC0 + n div 64, 0x80 + n mod 64]
      else if n < 0x10000 then [0xE0 + n div 4096, 0x80 + n div 64 mod 64, 0x80 + n mod 64]
      else [0xF0 + n div 262144, 0x80 + n div 4096 mod 64, 0x80 + n div 64 mod 64,
            0x80 + n mod 64])"

definition hex_digit :: "nat \<Rightarrow> jschar" where
  "hex_digit n = js ''0123456789ABCDEF'' ! (n mod 16)"

definition urlencoded_plain :: "nat \<Rightarrow> bool" where
  "urlencoded_plain b \<longleftrightarrow>
     (0x30 \<le> b \<and> b \<le> 0x39) \<or> (0x41 \<le> b \<and> b \<le> 0x5A) \<or> (0x61 \<le> b \<and> b \<le> 0x7A)
     \<or> b = 0x2A \<or> b = 0x2D \<or> b = 0x2E \<or> b = 0x5F"

definition urlencoded_byte :: "nat \<Rightarrow> jsstring" where
  "urlencoded_byte b =
     (if b = 0x20 then js ''+''
      else if urlencoded_plain b then [of_nat b]
      else js ''%'' @ [hex_digit (b div 16), hex_digit b])"

definition urlencoded_string :: "jsstring \<Rightarrow> jsstring" where
  "urlencoded_string s = concat (map urlencoded_byte (concat (map utf8 (scalar_values s))))"

fun urlencoded_serialize :: "(jsstring \<times> jsstring) list \<Rightarrow> jsstring" where
  "urlencoded_serialize [] = []"
| "urlencoded_serialize [(n, v)] = urlencoded_string n @ js ''='' @ urlencoded_string v"
| "urlencoded_serialize ((n, v) # p # ps) =
     urlencoded_string n @ js ''='' @ urlencoded_string v @ js ''&''
     @ urlencoded_serialize (p # ps)"

text \<open>
  \<open>url.searchParams.append(name, value)\<close> adds the pair to the list and sets the
  URL's query to the serialisation of the whole list (to absent when that is empty).
\<close>

definition searchParams_append :: "jsstring \<Rightarrow> jsstring \<Rightarrow> URL \<Rightarrow> URL" where
  "searchParams_append name val u =
     (let ps = searchParams u @ [(name, val)];
          s = urlencoded_serialize ps
      in u\<lparr>searchParams := ps, query := (if s = [] then None else Some s)\<rparr>)"

definition URL_toString :: "URL \<Rightarrow> jsstring" where
  "URL_toString u =
     location u
     @ (case query u of None \<Rightarrow> [] | Some q \<Rightarrow> js ''?'' @ q)
     @ (case fragment u of None \<Rightarrow> [] | Some f \<Rightarrow> js ''#'' @ f)"

section \<open>Objects, the store and the transport\<close>

text \<open>
  A header object is a JavaScript object with string values: its own properties in
  insertion order. An object literal with a spread, \<open>{ k: v, ...src }\<close>, starts from
  the written properties and copies each property of \<open>src\<close> over them in order,
  replacing the value of a key that is already there.
\<close>

type_synonym headers = "(jsstring \<times> jsstring) list"

definition spread :: "('k \<times> 'v) list \<Rightarrow> ('k \<times> 'v) list \<Rightarrow> ('k \<times> 'v) list" where
  "spread src obj = fold (\<lambda>(k, v). AList.update k v) src obj"

text \<open>
  Header objects live in a store and are passed by reference: the client keeps a
  reference to its default headers and hands the transport a reference to the
  object it builds for the call. The store is the list of the objects allocated so
  far, a reference is an index into it. The rest of the world, which only the
  transport reads and changes, is \<open>net\<close>.
\<close>

type_synonym addr = nat

record 't world =
  heap :: "headers list"
  net :: 't

definition alloc :: "headers \<Rightarrow> 't world \<Rightarrow> addr \<times> 't world" where
  "alloc obj w = (length (heap w), w\<lparr>heap := heap w @ [obj]\<rparr>)"

definition deref :: "'t world \<Rightarrow> addr \<Rightarrow> headers" where
  "deref w a = heap w ! a"

text \<open>
  The interface \<open>HttpClient\<close> of \<open>http.ts\<close>: five methods that take a URL, a body
  (\<open>post\<close>, \<open>put\<close>, \<open>patch\<close>) and a reference to a header object. A method may read
  and change the world; the promise it returns ends in an \<open>outcome\<close>.
\<close>

record 't HttpClient =
  get :: "jsstring \<Rightarrow> addr \<Rightarrow> 't world \<Rightarrow> outcome \<times> 't world"
  post :: "jsstring \<Rightarrow> jsvalue \<Rightarrow> addr \<Rightarrow> 't world \<Rightarrow> outcome \<times> 't world"
  put :: "jsstring \<Rightarrow> jsvalue \<Rightarrow> addr \<Rightarrow> 't world \<Rightarrow> outcome \<times> 't world"
  patch :: "jsstring \<Rightarrow> jsvalue \<Rightarrow> addr \<Rightarrow> 't world \<Rightarrow> outcome \<times> 't world"
  delete :: "jsstring \<Rightarrow> addr \<Rightarrow> 't world \<Rightarrow> outcome \<times> 't world"

section \<open>The client (\<open>client.ts\<close>)\<close>

definition BASE_URL :: jsstring where
  "BASE_URL = js ''https://api.sms-gate.app/3rdparty/v1''"

record 't Client =
  baseUrl :: jsstring
  httpClient :: "'t HttpClient"
  defaultHeaders :: addr

text \<open>
  The constructor. The argument \<open>url\<close> is the optional \<open>baseUrl\<close>: when it is
  absent the default \<open>BASE_URL\<close> is used. \<open>btoa\<close> may throw, and then no client
  exists.
\<close>

definition constructor ::
  "jsstring \<Rightarrow> jsstring \<Rightarrow> 't HttpClient \<Rightarrow> jsstring option \<Rightarrow> 't world
    \<Rightarrow> (jserror + 't Client) \<times> 't world" where
  "constructor login password http url w =
     (case btoa (login @ js '':'' @ password) of
        Inl e \<Rightarrow> (Inl e, w)
      | Inr b \<Rightarrow>
          (let (h, w1) = alloc [(js ''User-Agent'', js ''android-sms-gateway/2.0 (client; js)''),
                                (js ''Authorization'', js ''Basic '' @ b)] w
           in (Inr \<lparr>baseUrl = (case url of None \<Rightarrow> BASE_URL | Some u \<Rightarrow> u),
                     httpClient = http, defaultHeaders = h\<rparr>, w1)))"

text \<open>The optional second argument of \<open>send\<close>, \<open>{ skipPhoneValidation?: boolean }\<close>.\<close>

record send_options =
  skipPhoneValidation :: "bool option"

definition send ::
  "url_parser \<Rightarrow> 't Client \<Rightarrow> jsvalue \<Rightarrow> send_options option \<Rightarrow> 't world
    \<Rightarrow> outcome \<times> 't world" where
  "send newURL this request options w =
     (case newURL (baseUrl this @ js ''/message'') of
        Inl e \<Rightarrow> (Rejected e, w)
      | Inr url0 \<Rightarrow>
          (let url = (case Option.bind options skipPhoneValidation of
                        None \<Rightarrow> url0
                      | Some b \<Rightarrow>
                          searchParams_append (js ''skipPhoneValidation'') (bool_toString b) url0);
               (headers, w1) =
                 alloc (spread (deref w (defaultHeaders this))
                          [(js ''Content-Type'', js ''application/json'')]) w
           in post (httpClient this) (URL_toString url) request headers w1))"

definition getState :: "'t Client \<Rightarrow> jsstring \<Rightarrow> 't world \<Rightarrow> outcome \<times> 't world" where
  "getState this messageId w =
     (let url = baseUrl this @ js ''/message/'' @ messageId;
          (headers, w1) = alloc (spread (deref w (defaultHeaders this)) []) w
      in get (httpClient this) url headers w1)"

definition getWebhooks :: "'t Client \<Rightarrow> 't world \<Rightarrow> outcome \<times> 't world" where
  "getWebhooks this w =
     (let url = baseUrl this @ js ''/webhooks'';
          (headers, w1) = alloc (spread (deref w (defaultHeaders this)) []) w
      in get (httpClient this) url headers w1)"

definition registerWebhook :: "'t Client \<Rightarrow> jsvalue \<Rightarrow> 't world \<Rightarrow> outcome \<times> 't world" where
  "registerWebhook this request w =
     (let url = baseUrl this @ js ''/webhooks'';
          (headers, w1) =
            alloc (spread (deref w (defaultHeaders this))
                     [(js ''Content-Type'', js ''application/json'')]) w
      in post (httpClient this) url request headers w1)"

definition deleteWebhook :: "'t Client \<Rightarrow> jsstring \<Rightarrow> 't world \<Rightarrow> outcome \<times> 't world" where
  "deleteWebhook this webhookId w =
     (let url = baseUrl this @ js ''/webhooks/'' @ webhookId;
          (headers, w1) = alloc (spread (deref w (defaultHeaders this)) []) w
      in delete (httpClient this) url headers w1)"

definition getDevices :: "'t Client \<Rightarrow> 't world \<Rightarrow> outcome \<times> 't world" where
  "getDevices this w =
     (let url = baseUrl this @ js ''/devices'';
          (headers, w1) = alloc (spread (deref w (defaultHeaders this)) []) w
      in get (httpClient this) url headers w1)"

definition deleteDevice :: "'t Client \<Rightarrow> jsstring \<Rightarrow> 't world \<Rightarrow> outcome \<times> 't world" where
  "deleteDevice this deviceId w =
     (let url = baseUrl this @ js ''/devices/'' @ deviceId;
          (headers, w1) = alloc (spread (deref w (defaultHeaders this)) []) w
      in delete (httpClient this) url headers w1)"

definition getHealth :: "'t Client \<Rightarrow> 't world \<Rightarrow> outcome \<times> 't world" where
  "getHealth this w =
     (let url = baseUrl this @ js ''/health'';
          (headers, w1) = alloc (spread (deref w (defaultHeaders this)) []) w
      in get (httpClient this) url headers w1)"

text \<open>
  \<open>MessagesExportRequest\<close> of \<open>domain.ts\<close>. \<open>exportInbox\<close> builds the header object
  first and converts the two dates afterwards, so a \<open>RangeError\<close> of \<open>toISOString\<close>
  leaves the new header object behind.
\<close>

record MessagesExportRequest =
  deviceId :: jsstring
  since :: Date
  until :: Date

definition exportInbox ::
  "'t Client \<Rightarrow> MessagesExportRequest \<Rightarrow> 't world \<Rightarrow> outcome \<times> 't world" where
  "exportInbox this request w =
     (let url = baseUrl this @ js ''/inbox/export'';
          (headers, w1) =
            alloc (spread (deref w (defaultHeaders this))
                     [(js ''Content-Type'', js ''application/json'')]) w
      in case toISOString (since request) of
           Inl e \<Rightarrow> (Rejected e, w1)
         | Inr s \<Rightarrow>
             (case toISOString (until request) of
                Inl e \<Rightarrow> (Rejected e, w1)
              | Inr u \<Rightarrow>
                  post (httpClient this) url
                    (VObject [(js ''deviceId'', VString (deviceId request)),
                              (js ''since'', VString s), (js ''until'', VString u)])
                    headers w1))"

text \<open>
  One step of \<open>getLogs\<close>: \<open>if (d) url.searchParams.append(name, d.toISOString())\<close>.
  A \<open>Date\<close> object is truthy even when it is invalid, so only an absent argument
  skips the step.
\<close>

definition append_date :: "jsstring \<Rightarrow> Date option \<Rightarrow> URL \<Rightarrow> jserror + URL" where
  "append_date name d url =
     (case d of
        None \<Rightarrow> Inr url
      | Some t \<Rightarrow>
          (case toISOString t of
             Inl e \<Rightarrow> Inl e
           | Inr s \<Rightarrow> Inr (searchParams_append name s url)))"

definition getLogs ::
  "url_parser \<Rightarrow> 't Client \<Rightarrow> Date option \<Rightarrow> Date option \<Rightarrow> 't world
    \<Rightarrow> outcome \<times> 't world" where
  "getLogs newURL this from to w =
     (case newURL (baseUrl this @ js ''/logs'') of
        Inl e \<Rightarrow> (Rejected e, w)
      | Inr url0 \<Rightarrow>
          (case append_date (js ''from'') from url0 of
             Inl e \<Rightarrow> (Rejected e, w)
           | Inr url1 \<Rightarrow>
               (case append_date (js ''to'') to url1 of
                  Inl e \<Rightarrow> (Rejected e, w)
                | Inr url \<Rightarrow>
                    (let (headers, w1) = alloc (spread (deref w (defaultHeaders this)) []) w
                     in get (httpClient this) (URL_toString url) headers w1))))"

definition getSettings :: "'t Client \<Rightarrow> 't world \<Rightarrow> outcome \<times> 't world" where
  "getSettings this w =
     (let url = baseUrl this @ js ''/settings'';
          (headers, w1) = alloc (spread (deref w (defaultHeaders this)) []) w
      in get (httpClient this) url headers w1)"

definition updateSettings :: "'t Client \<Rightarrow> jsvalue \<Rightarrow> 't world \<Rightarrow> outcome \<times> 't world" where
  "updateSettings this settings w =
     (let url = baseUrl this @ js ''/settings'';
          (headers, w1) =
            alloc (spread (deref w (defaultHeaders this))
                     [(js ''Content-Type'', js ''application/json'')]) w
      in put (httpClient this) url settings headers w1)"

definition patchSettings :: "'t Client \<Rightarrow> jsvalue \<Rightarrow> 't world \<Rightarrow> outcome \<times> 't world" where
  "patchSettings this settings w =
     (let url = baseUrl this @ js ''/settings'';
          (headers, w1) =
            alloc (spread (deref w (defaultHeaders this))
                     [(js ''Content-Type'', js ''application/json'')]) w
      in patch (httpClient this) url settings headers w1)"

section \<open>Operations and the transport calls they make\<close>

text \<open>The thirteen public methods with their arguments, and a call of one of them.\<close>

datatype operation =
    Send jsvalue "send_options option"
  | GetState jsstring
  | GetWebhooks
  | RegisterWebhook jsvalue
  | DeleteWebhook jsstring
  | GetDevices
  | DeleteDevice jsstring
  | GetHealth
  | ExportInbox MessagesExportRequest
  | GetLogs "Date option" "Date option"
  | GetSettings
  | UpdateSettings jsvalue
  | PatchSettings jsvalue

fun invoke :: "url_parser \<Rightarrow> 't Client \<Rightarrow> operation \<Rightarrow> 't world \<Rightarrow> outcome \<times> 't world" where
  "invoke newURL c (Send request options) w = send newURL c request options w"
| "invoke newURL c (GetState messageId) w = getState c messageId w"
| "invoke newURL c GetWebhooks w = getWebhooks c w"
| "invoke newURL c (RegisterWebhook request) w = registerWebhook c request w"
| "invoke newURL c (DeleteWebhook webhookId) w = deleteWebhook c webhookId w"
| "invoke newURL c GetDevices w = getDevices c w"
| "invoke newURL c (DeleteDevice device) w = deleteDevice c device w"
| "invoke newURL c GetHealth w = getHealth c w"
| "invoke newURL c (ExportInbox request) w = exportInbox c request w"
| "invoke newURL c (GetLogs from to) w = getLogs newURL c from to w"
| "invoke newURL c GetSettings w = getSettings c w"
| "invoke newURL c (UpdateSettings settings) w = updateSettings c settings w"
| "invoke newURL c (PatchSettings settings) w = patchSettings c settings w"

text \<open>
  The arguments of one call of a transport method, the header object by its
  content. \<open>call\<close> makes the call: it puts the header content into a fresh object
  and passes the reference.
\<close>

datatype request =
    GetRequest jsstring headers
  | PostRequest jsstring jsvalue headers
  | PutRequest jsstring jsvalue headers
  | PatchRequest jsstring jsvalue headers
  | DeleteRequest jsstring headers

fun request_url :: "request \<Rightarrow> jsstring" where
  "request_url (GetRequest url hs) = url"
| "request_url (PostRequest url b hs) = url"
| "request_url (PutRequest url b hs) = url"
| "request_url (PatchRequest url b hs) = url"
| "request_url (DeleteRequest url hs) = url"

fun request_headers :: "request \<Rightarrow> headers" where
  "request_headers (GetRequest url hs) = hs"
| "request_headers (PostRequest url b hs) = hs"
| "request_headers (PutRequest url b hs) = hs"
| "request_headers (PatchRequest url b hs) = hs"
| "request_headers (DeleteRequest url hs) = hs"

fun request_body :: "request \<Rightarrow> jsvalue option" where
  "request_body (GetRequest url hs) = None"
| "request_body (PostRequest url b hs) = Some b"
| "request_body (PutRequest url b hs) = Some b"
| "request_body (PatchRequest url b hs) = Some b"
| "request_body (DeleteRequest url hs) = None"

fun call :: "'t HttpClient \<Rightarrow> request \<Rightarrow> 't world \<Rightarrow> outcome \<times> 't world" where
  "call http (GetRequest url hs) w = (let (h, w1) = alloc hs w in get http url h w1)"
| "call http (PostRequest url b hs) w = (let (h, w1) = alloc hs w in post http url b h w1)"
| "call http (PutRequest url b hs) w = (let (h, w1) = alloc hs w in put http url b h w1)"
| "call http (PatchRequest url b hs) w = (let (h, w1) = alloc hs w in patch http url b h w1)"
| "call http (DeleteRequest url hs) w = (let (h, w1) = alloc hs w in delete http url h w1)"

text \<open>
  The mock transport of the test suite: every method records its arguments, the
  header object by the content it has at the call, and settles with the outcome the
  mock was set up with. \<open>calls\<close> runs an operation of a client against the mock and
  returns what was recorded.
\<close>

definition record_call ::
  "outcome \<Rightarrow> request \<Rightarrow> request list world \<Rightarrow> outcome \<times> request list world" where
  "record_call r k w = (r, w\<lparr>net := net w @ [k]\<rparr>)"

definition mockHttpClient :: "outcome \<Rightarrow> request list HttpClient" where
  "mockHttpClient r =
     \<lparr>get = (\<lambda>url h w. record_call r (GetRequest url (deref w h)) w),
      post = (\<lambda>url b h w. record_call r (PostRequest url b (deref w h)) w),
      put = (\<lambda>url b h w. record_call r (PutRequest url b (deref w h)) w),
      patch = (\<lambda>url b h w. record_call r (PatchRequest url b (deref w h)) w),
      delete = (\<lambda>url h w. record_call r (DeleteRequest url (deref w h)) w)\<rparr>"

definition calls :: "url_parser \<Rightarrow> 't Client \<Rightarrow> operation \<Rightarrow> 't world \<Rightarrow> request list" where
  "calls newURL c op w =
     net (snd (invoke newURL
                 \<lparr>baseUrl = baseUrl c, httpClient = mockHttpClient Pending,
                  defaultHeaders = defaultHeaders c\<rparr>
                 op \<lparr>heap = heap w, net = []\<rparr>))"

section \<open>Concrete transports, parsers and worlds\<close>

text \<open>
  A URL parser to evaluate the operations with. It accepts \<open>http://\<close> and
  \<open>https://\<close> followed by a host of ASCII letters, single dots and hyphens between
  them, and a path of letters, digits, \<open>/\<close>, \<open>-\<close> and \<open>_\<close>; it returns the URL with
  the host in lower case, without query and fragment, as the platform's parser does
  for these strings. It rejects every other string; of those, the platform's parser
  rejects the ones that have no scheme.
\<close>

definition is_alpha :: "jschar \<Rightarrow> bool" where
  "is_alpha c \<longleftrightarrow> (0x41 \<le> c \<and> c \<le> 0x5A) \<or> (0x61 \<le> c \<and> c \<le> 0x7A)"

definition is_digit :: "jschar \<Rightarrow> bool" where
  "is_digit c \<longleftrightarrow> 0x30 \<le> c \<and> c \<le> 0x39"

definition to_lower :: "jschar \<Rightarrow> jschar" where
  "to_lower c = (if 0x41 \<le> c \<and> c \<le> 0x5A then c + 0x20 else c)"

fun plain_host :: "jsstring \<Rightarrow> bool" where
  "plain_host [] = False"
| "plain_host [c] = is_alpha c"
| "plain_host (c # d # cs) =
     (is_alpha c \<and> (if d = 0x2E \<or> d = 0x2D then plain_host cs else plain_host (d # cs)))"

fun plain_path :: "jsstring \<Rightarrow> bool" where
  "plain_path [] = False"
| "plain_path (c # cs) =
     (c = 0x2F \<and> list_all (\<lambda>d. is_alpha d \<or> is_digit d \<or> d = 0x2F \<or> d = 0x2D \<or> d = 0x5F) cs)"

fun strip_prefix :: "jsstring \<Rightarrow> jsstring \<Rightarrow> jsstring option" where
  "strip_prefix [] s = Some s"
| "strip_prefix (p # ps) [] = None"
| "strip_prefix (p # ps) (c # cs) = (if p = c then strip_prefix ps cs else None)"

definition plain_after_scheme :: "jsstring \<Rightarrow> jsstring \<Rightarrow> jserror + URL" where
  "plain_after_scheme scheme rest =
     (let host = takeWhile (\<lambda>c. c \<noteq> 0x2F) rest;
          path = dropWhile (\<lambda>c. c \<noteq> 0x2F) rest
      in if plain_host host \<and> plain_path path
         then Inr \<lparr>location = scheme @ map to_lower host @ path, query = None,
                   searchParams = [], fragment = None\<rparr>
         else Inl TypeError)"

definition plain_newURL :: url_parser where
  "plain_newURL s =
     (case strip_prefix (js ''https://'') s of
        Some rest \<Rightarrow> plain_after_scheme (js ''https://'') rest
      | None \<Rightarrow>
          (case strip_prefix (js ''http://'') s of
             Some rest \<Rightarrow> plain_after_scheme (js ''http://'') rest
           | None \<Rightarrow> Inl TypeError))"

text \<open>The world before anything is allocated, for a transport with state \<open>'t\<close>.\<close>

definition empty_world :: "'t \<Rightarrow> 't world" where
  "empty_world t = \<lparr>heap = [], net = t\<rparr>"

text \<open>
  Two more transports. \<open>echoHttpClient\<close> fulfils \<open>post\<close>, \<open>put\<close> and \<open>patch\<close> with
  the body it was given. \<open>clearingHttpClient\<close> empties the header object it is handed
  before it settles, to show what a transport can do to the object it receives.
\<close>

definition echoHttpClient :: "'t HttpClient" where
  "echoHttpClient =
     \<lparr>get = (\<lambda>url h w. (Fulfilled VUndefined, w)),
      post = (\<lambda>url b h w. (Fulfilled b, w)),
      put = (\<lambda>url b h w. (Fulfilled b, w)),
      patch = (\<lambda>url b h w. (Fulfilled b, w)),
      delete = (\<lambda>url h w. (Fulfilled VUndefined, w))\<rparr>"

definition clear_object :: "outcome \<Rightarrow> addr \<Rightarrow> 't world \<Rightarrow> outcome \<times> 't world" where
  "clear_object r h w = (r, w\<lparr>heap := (heap w)[h := []]\<rparr>)"

definition clearingHttpClient :: "outcome \<Rightarrow> 't HttpClient" where
  "clearingHttpClient r =
     \<lparr>get = (\<lambda>url h w. clear_object r h w),
      post = (\<lambda>url b h w. clear_object r h w),
      put = (\<lambda>url b h w. clear_object r h w),
      patch = (\<lambda>url b h w. clear_object r h w),
      delete = (\<lambda>url h w. clear_object r h w)\<rparr>"

text \<open>
  The fixtures of the test suite: the client constructed with \<open>'login'\<close> and
  \<open>'password'\<close> on the mock transport with the default base URL, the world that
  construction leaves, and the message \<open>{ message: 'Hello', phoneNumbers:
  ['+1234567890'] }\<close>, and the export request of the inbox test, from 1 to 2 January
  2024. \<open>object_keys\<close> is \<open>Object.keys\<close>.
\<close>

definition login_client :: "request list Client" where
  "login_client =
     \<lparr>baseUrl = BASE_URL, httpClient = mockHttpClient Pending, defaultHeaders = 0\<rparr>"

definition login_world :: "request list world" where
  "login_world =
     \<lparr>heap = [[(js ''User-Agent'', js ''android-sms-gateway/2.0 (client; js)''),
                (js ''Authorization'', js ''Basic bG9naW46cGFzc3dvcmQ='')]],
      net = []\<rparr>"

definition hello_message :: jsvalue where
  "hello_message =
     VObject [(js ''message'', VString (js ''Hello'')),
              (js ''phoneNumbers'', VArray [VString (js ''+1234567890'')])]"

definition export_request :: MessagesExportRequest where
  "export_request =
     \<lparr>deviceId = js ''test-device-id'', since = TimeValue 1704067200000,
      until = TimeValue 1704153600000\<rparr>"

fun object_keys :: "jsvalue \<Rightarrow> jsstring list" where
  "object_keys (VObject ps) = map fst ps"
| "object_keys v = []"

section \<open>The endpoint table of the specification\<close>


fun carries_body :: "operation \<Rightarrow> bool" where
  "carries_body (Send request options) = True"
| "carries_body (RegisterWebhook request) = True"
| "carries_body (ExportInbox request) = True"
| "carries_body (UpdateSettings settings) = True"
| "carries_body (PatchSettings settings) = True"
| "carries_body op = False"


fun date_param :: "jsstring \<Rightarrow> Date option \<Rightarrow> (jsstring \<times> jsstring) list" where
  "date_param name None = []"
| "date_param name (Some d) = (case toISOString d of Inl e \<Rightarrow> [] | Inr s \<Rightarrow> [(name, s)])"

fun query_params :: "operation \<Rightarrow> (jsstring \<times> jsstring) list" where
  "query_params (Send request options) =
     (case Option.bind options skipPhoneValidation of
        None \<Rightarrow> []
      | Some b \<Rightarrow> [(js ''skipPhoneValidation'', bool_toString b)])"
| "query_params (GetLogs from to) = date_param (js ''from'') from @ date_param (js ''to'') to"
| "query_params op = []"


text \<open>The result of a parser that returns the string as it is, with no query or fragment.\<close>

definition unchanged :: "jsstring \<Rightarrow> URL" where
  "unchanged s = \<lparr>location = s, query = None, searchParams = [], fragment = None\<rparr>"

text \<open>
  A transport keeps to the object it is handed when none of its methods removes an
  object from the store or changes an object other than the header object of the
  call. \<open>keeps_others h w w'\<close> says so for one step from \<open>w\<close> to \<open>w'\<close> with the
  handed object \<open>h\<close>.
\<close>

definition keeps_others :: "addr \<Rightarrow> 't world \<Rightarrow> 't world \<Rightarrow> bool" where
  "keeps_others h w w' \<longleftrightarrow>
     length (heap w) \<le> length (heap w')
     \<and> (\<forall>a < length (heap w). a \<noteq> h \<longrightarrow> deref w' a = deref w a)"

definition keeps_other_objects :: "'t HttpClient \<Rightarrow> bool" where
  "keeps_other_objects http \<longleftrightarrow>
     (\<forall>url b h w.
        keeps_others h w (snd (get http url h w))
      \<and> keeps_others h w (snd (post http url b h w))
      \<and> keeps_others h w (snd (put http url b h w))
      \<and> keeps_others h w (snd (patch http url b h w))
      \<and> keeps_others h w (snd (delete http url h w)))"

text \<open>A caller that invokes a list of operations on one client, one after the other.\<close>

fun run :: "url_parser \<Rightarrow> 't Client \<Rightarrow> operation list \<Rightarrow> 't world \<Rightarrow> 't world" where
  "run newURL c [] w = w"
| "run newURL c (op # ops) w = run newURL c ops (snd (invoke newURL c op w))"

section \<open>Properties of the model\<close>

text \<open>
  The equation of \<open>toISOString\<close> for a time value is unfolded only where a proof
  asks for it; concrete dates are evaluated with the code equations.
\<close>

declare toISOString.simps(2) [simp del]

lemmas op_defs =
  send_def getState_def getWebhooks_def registerWebhook_def deleteWebhook_def
  getDevices_def deleteDevice_def getHealth_def exportInbox_def getLogs_def
  getSettings_def updateSettings_def patchSettings_def

lemmas mock_defs = calls_def mockHttpClient_def record_call_def alloc_def deref_def

lemmas string_defs = js_def b64_digit_def b64_alphabet_def

text \<open>
  A spread copies the properties of \<open>src\<close> in order, so the last value written for
  a key is the one that stays.
\<close>

lemma map_of_spread: "map_of (spread src obj) = map_of obj ++ map_of (rev src)"
proof (induction src arbitrary: obj)
  case Nil
  then show ?case by (simp add: spread_def)
next
  case (Cons p src)
  obtain k v where p: "p = (k, v)" by (cases p)
  have "map_of (spread (p # src) obj) = map_of (spread src (AList.update k v obj))"
    by (simp add: spread_def p)
  also have "\<dots> = map_of (AList.update k v obj) ++ map_of (rev src)"
    by (rule Cons.IH)
  also have "\<dots> = map_of obj ++ map_of (rev (p # src))"
    by (simp add: p update_conv')
  finally show ?case .
qed

text \<open>
  An operation makes at most one transport call. When the mock records the call
  \<open>k\<close>, the operation on the client's own transport is that call; when it records
  none, the operation rejects and the transport's state is untouched.
\<close>

lemma calls_length: "length (calls newURL c op w) \<le> 1"
  by (cases op) (auto simp: mock_defs op_defs split: sum.splits)

lemma invoke_call:
  "calls newURL c op w = [k] \<Longrightarrow> invoke newURL c op w = call (httpClient c) k w"
  by (cases op) (auto simp: mock_defs op_defs split: sum.splits)

lemma invoke_no_call:
  "calls newURL c op w = [] \<Longrightarrow>
     \<exists>e. fst (invoke newURL c op w) = Rejected e \<and> net (snd (invoke newURL c op w)) = net w"
  by (cases op) (auto simp: mock_defs op_defs split: sum.splits)

text \<open>
  The header object of a call is the spread of the stored default headers, over
  \<open>Content-Type\<close> when the call has a body and over nothing when it has none.
\<close>

lemma calls_headers:
  "calls newURL c op w = [k] \<Longrightarrow>
     request_headers k =
       spread (deref w (defaultHeaders c))
         (case request_body k of
            None \<Rightarrow> []
          | Some b \<Rightarrow> [(js ''Content-Type'', js ''application/json'')])"
  by (cases op) (auto simp: mock_defs op_defs split: sum.splits)

text \<open>What a successful construction leaves behind.\<close>

lemma constructor_Inr:
  assumes "constructor login password http url w0 = (Inr c, w1)"
  shows "btoa (login @ js '':'' @ password)
           = Inr (base64_encode (map unat (login @ js '':'' @ password)))"
    and "c = \<lparr>baseUrl = (case url of None \<Rightarrow> BASE_URL | Some u \<Rightarrow> u), httpClient = http,
              defaultHeaders = length (heap w0)\<rparr>"
    and "w1 = w0\<lparr>heap := heap w0 @
              [[(js ''User-Agent'', js ''android-sms-gateway/2.0 (client; js)''),
                (js ''Authorization'',
                 js ''Basic '' @ base64_encode (map unat (login @ js '':'' @ password)))]]\<rparr>"
  using assms
  by (auto simp: constructor_def btoa_def alloc_def split: if_splits)

lemma constructor_succeeds:
  assumes "list_all (\<lambda>c. c \<le> 0xFF) (login @ password)"
  shows "\<exists>c w1. constructor login password http url w0 = (Inr c, w1)"
proof -
  have "\<not> list_ex (\<lambda>c. 0xFF < c) (login @ js '':'' @ password)"
    using assms by (auto simp: list_ex_iff list_all_iff js_def not_less [symmetric])
  then show ?thesis
    by (simp add: constructor_def btoa_def alloc_def)
qed

lemma constructor_latin1:
  assumes "constructor login password http url w0 = (Inr c, w1)"
  shows "list_all (\<lambda>c. c \<le> 0xFF) (login @ password)"
proof -
  have "\<not> list_ex (\<lambda>c. 0xFF < c) (login @ js '':'' @ password)"
    using assms by (auto simp: constructor_def btoa_def split: if_splits)
  then show ?thesis
    by (auto simp: list_ex_iff list_all_iff not_less [symmetric])
qed

lemma constructor_stored:
  assumes "constructor login password http url w0 = (Inr c, w1)"
  shows "deref w1 (defaultHeaders c) =
           [(js ''User-Agent'', js ''android-sms-gateway/2.0 (client; js)''),
            (js ''Authorization'',
             js ''Basic '' @ base64_encode (map unat (login @ js '':'' @ password)))]"
  using constructor_Inr(2,3) [OF assms] by (simp add: deref_def)

lemma of_char_less_256: "(of_char c :: nat) < 256"
proof -
  have "(of_char c :: nat) mod 256 = of_char c" by simp
  then show ?thesis by (metis mod_less_divisor zero_less_numeral)
qed

lemma unat_js_char: "unat (of_nat (of_char c) :: 16 word) = of_char c"
proof -
  have "(of_char c :: nat) < 65536"
    using of_char_less_256 [of c] by linarith
  then show ?thesis by (simp add: unat_of_nat)
qed

lemma js_inject: "js s = js t \<longleftrightarrow> s = t"
proof -
  have "inj (\<lambda>c::char. (of_nat (of_char c) :: 16 word))"
    by (rule injI) (metis unat_js_char of_char_eq_iff)
  then show ?thesis
    by (auto simp: js_def dest: inj_mapD [rotated])
qed

section \<open>Authentication header\<close>

text \<open>
  C1, as the specification states it: a client constructed with the empty string as
  login and a credential \<open>t\<close> sends \<open>Authorization: Bearer t\<close>. The constructor has
  no branch on the login. Constructed with login \<open>""\<close> and password \<open>"t"\<close>, the client
  stores \<open>Authorization: Basic OnQ=\<close>, the base64 encoding of \<open>":t"\<close>, and
  \<open>getState("123")\<close> hands exactly that to the transport, not \<open>Bearer t\<close>.
\<close>

theorem C1_bearer_counterexample:
  "constructor (js []) (js ''t'') (mockHttpClient Pending) None (empty_world [])
     = (Inr \<lparr>baseUrl = BASE_URL, httpClient = mockHttpClient Pending, defaultHeaders = 0\<rparr>,
        \<lparr>heap = [[(js ''User-Agent'', js ''android-sms-gateway/2.0 (client; js)''),
                   (js ''Authorization'', js ''Basic OnQ='')]],
         net = []\<rparr>)
   \<and> calls plain_newURL
        \<lparr>baseUrl = BASE_URL, httpClient = mockHttpClient Pending, defaultHeaders = 0\<rparr>
        (GetState (js ''123''))
        \<lparr>heap = [[(js ''User-Agent'', js ''android-sms-gateway/2.0 (client; js)''),
                   (js ''Authorization'', js ''Basic OnQ='')]],
         net = []\<rparr>
     = [GetRequest (js ''https://api.sms-gate.app/3rdparty/v1/message/123'')
          [(js ''User-Agent'', js ''android-sms-gateway/2.0 (client; js)''),
           (js ''Authorization'', js ''Basic OnQ='')]]
   \<and> map_of [(js ''User-Agent'', js ''android-sms-gateway/2.0 (client; js)''),
              (js ''Authorization'', js ''Basic OnQ='')] (js ''Authorization'')
     \<noteq> Some (js ''Bearer t'')"
  by (simp add: constructor_def btoa_def alloc_def empty_world_def mock_defs getState_def
        spread_def BASE_URL_def string_defs)

text \<open>
  C1, amended: for every login, empty or not, and every password with which the
  constructor succeeds - it does when no code unit of the two is above 0xFF
  (\<open>constructor_succeeds\<close>), and only then - the header object of every transport
  call of every operation maps \<open>Authorization\<close> to \<open>Basic\<close> followed by the base64
  encoding of \<open>login:password\<close>, as long as the stored header object holds what the
  constructor put there. The operation is that call on the client's transport.
\<close>

theorem C1_authorization_is_basic:
  assumes "constructor login password http url w0 = (Inr c, w1)"
    and "deref w (defaultHeaders c) = deref w1 (defaultHeaders c)"
    and "calls newURL c op w = [k]"
  shows "list_all (\<lambda>c. c \<le> 0xFF) (login @ password)
       \<and> btoa (login @ js '':'' @ password)
           = Inr (base64_encode (map unat (login @ js '':'' @ password)))
       \<and> map_of (request_headers k) (js ''Authorization'')
           = Some (js ''Basic '' @ base64_encode (map unat (login @ js '':'' @ password)))
       \<and> invoke newURL c op w = call (httpClient c) k w"
proof -
  have auth_key: "js ''Authorization'' \<noteq> js ''Content-Type''"
    by (simp add: js_inject)
  have "map_of (request_headers k) (js ''Authorization'')
          = (map_of (case request_body k of None \<Rightarrow> []
                     | Some b \<Rightarrow> [(js ''Content-Type'', js ''application/json'')])
             ++ map_of (rev (deref w1 (defaultHeaders c)))) (js ''Authorization'')"
    using calls_headers [OF assms(3)] assms(2) by (simp add: map_of_spread)
  also have "\<dots> = Some (js ''Basic '' @ base64_encode (map unat (login @ js '':'' @ password)))"
    by (simp add: constructor_stored [OF assms(1)] map_add_def js_inject)
  finally show ?thesis
    using constructor_Inr(1) [OF assms(1)] invoke_call [OF assms(3)]
      constructor_latin1 [OF assms(1)]
    by simp
qed

theorem C1_authorization_is_basic_witness:
  "map_of (request_headers
             (GetRequest (js ''https://api.sms-gate.app/3rdparty/v1/message/123'')
                [(js ''User-Agent'', js ''android-sms-gateway/2.0 (client; js)''),
                 (js ''Authorization'', js ''Basic OnQ='')]))
      (js ''Authorization'') = Some (js ''Basic OnQ='')
   \<and> btoa (js [] @ js '':'' @ js ''t'') = Inr (js ''OnQ='')"
proof -
  let ?c = "\<lparr>baseUrl = BASE_URL, httpClient = mockHttpClient Pending, defaultHeaders = 0\<rparr>"
  let ?w = "\<lparr>heap = [[(js ''User-Agent'', js ''android-sms-gateway/2.0 (client; js)''),
                       (js ''Authorization'', js ''Basic OnQ='')]],
             net = []\<rparr> :: request list world"
  let ?k = "GetRequest (js ''https://api.sms-gate.app/3rdparty/v1/message/123'')
              [(js ''User-Agent'', js ''android-sms-gateway/2.0 (client; js)''),
               (js ''Authorization'', js ''Basic OnQ='')]"
  have enc: "base64_encode (map unat (js [] @ js '':'' @ js ''t'')) = js ''OnQ=''"
    by (simp add: string_defs)
  have built: "constructor (js []) (js ''t'') (mockHttpClient Pending) None (empty_world [])
                 = (Inr ?c, ?w)"
    by (simp add: constructor_def btoa_def alloc_def empty_world_def string_defs)
  have made: "calls plain_newURL ?c (GetState (js ''123'')) ?w = [?k]"
    by (simp add: mock_defs getState_def spread_def BASE_URL_def string_defs)
  show ?thesis
    using C1_authorization_is_basic [OF built refl made] enc by (simp add: js_def)
qed

section \<open>Header composition\<close>

lemma login_client_constructed:
  "constructor (js ''login'') (js ''password'') (mockHttpClient Pending) None (empty_world [])
     = (Inr login_client, login_world)"
  by (simp add: constructor_def btoa_def alloc_def empty_world_def login_client_def
        login_world_def string_defs)

lemma plain_newURL_message:
  "plain_newURL (js ''https://api.sms-gate.app/3rdparty/v1/message'')
     = Inr (unchanged (js ''https://api.sms-gate.app/3rdparty/v1/message''))"
  by (simp add: plain_newURL_def plain_after_scheme_def js_def is_alpha_def is_digit_def
        to_lower_def unchanged_def)

lemma calls_body:
  "calls newURL c op w = [k] \<Longrightarrow> (request_body k \<noteq> None) = carries_body op"
  by (cases op) (auto simp: mock_defs op_defs split: sum.splits)





section \<open>URLs\<close>

lemma urlencoded_serialize_Nil_iff: "urlencoded_serialize ps = [] \<longleftrightarrow> ps = []"
proof (cases ps)
  case Nil
  then show ?thesis by simp
next
  case (Cons p qs)
  obtain n v where "p = (n, v)" by (cases p)
  with Cons show ?thesis by (cases qs) (simp_all add: js_def)
qed

lemma URL_toString_append:
  "URL_toString (searchParams_append name val u) =
     location u @ js ''?'' @ urlencoded_serialize (searchParams u @ [(name, val)])
     @ (case fragment u of None \<Rightarrow> [] | Some f \<Rightarrow> js ''#'' @ f)"
  by (simp add: URL_toString_def searchParams_append_def Let_def urlencoded_serialize_Nil_iff)

lemma searchParams_append_sel:
  "location (searchParams_append name val u) = location u"
  "fragment (searchParams_append name val u) = fragment u"
  "searchParams (searchParams_append name val u) = searchParams u @ [(name, val)]"
  by (simp_all add: searchParams_append_def Let_def)













section \<open>Query parameters\<close>

lemma urlencoded_names:
  "urlencoded_string (js ''skipPhoneValidation'') = js ''skipPhoneValidation''"
  "urlencoded_string (js ''true'') = js ''true''"
  "urlencoded_string (js ''false'') = js ''false''"
  "urlencoded_string (js ''from'') = js ''from''"
  "urlencoded_string (js ''to'') = js ''to''"
  by (simp_all add: urlencoded_string_def urlencoded_byte_def urlencoded_plain_def utf8_def
        lone_unit_def is_high_surrogate_def is_low_surrogate_def js_def)

lemma calls_Send:
  "newURL (baseUrl c @ js ''/message'') = Inr u \<Longrightarrow>
   calls newURL c (Send request options) w =
     [PostRequest
        (URL_toString (fold (\<lambda>(n, v). searchParams_append n v)
                         (query_params (Send request options)) u))
        request
        (spread (deref w (defaultHeaders c)) [(js ''Content-Type'', js ''application/json'')])]"
  by (simp add: mock_defs send_def split: option.splits)

lemma calls_GetLogs:
  "newURL (baseUrl c @ js ''/logs'') = Inr u \<Longrightarrow>
   calls newURL c (GetLogs d1 d2) w =
     (case append_date (js ''from'') d1 u of
        Inl e \<Rightarrow> []
      | Inr u1 \<Rightarrow>
          (case append_date (js ''to'') d2 u1 of
             Inl e \<Rightarrow> []
           | Inr u2 \<Rightarrow>
               [GetRequest (URL_toString u2) (spread (deref w (defaultHeaders c)) [])]))"
  by (simp add: mock_defs getLogs_def split: sum.splits)

lemma getLogs_invalid_from:
  "newURL (baseUrl c @ js ''/logs'') = Inr u \<Longrightarrow> toISOString d = Inl e \<Longrightarrow>
     getLogs newURL c (Some d) d2 w = (Rejected e, w)"
  by (simp add: getLogs_def append_date_def)

lemma getLogs_invalid_to:
  "newURL (baseUrl c @ js ''/logs'') = Inr u \<Longrightarrow> toISOString d = Inl e \<Longrightarrow>
     append_date (js ''from'') d1 u = Inr u1 \<Longrightarrow>
     getLogs newURL c d1 (Some d) w = (Rejected e, w)"
  by (simp add: getLogs_def append_date_def)

lemma plain_newURL_logs:
  "plain_newURL (js ''https://api.sms-gate.app/3rdparty/v1/logs'')
     = Inr (unchanged (js ''https://api.sms-gate.app/3rdparty/v1/logs''))"
  by (simp add: plain_newURL_def plain_after_scheme_def js_def is_alpha_def is_digit_def
        to_lower_def unchanged_def)

lemma toISOString_fixtures:
  "toISOString (TimeValue 1704067200000) = Inr (js ''2024-01-01T00:00:00.000Z'')"
  "toISOString (TimeValue 1704070800000) = Inr (js ''2024-01-01T01:00:00.000Z'')"
  "toISOString (TimeValue 1704153600000) = Inr (js ''2024-01-02T00:00:00.000Z'')"
  by code_simp+

lemma urlencoded_fixtures:
  "urlencoded_string (js ''2024-01-01T00:00:00.000Z'') = js ''2024-01-01T00%3A00%3A00.000Z''"
  "urlencoded_string (js ''2024-01-01T01:00:00.000Z'') = js ''2024-01-01T01%3A00%3A00.000Z''"
  by code_simp+

lemma toISOString_valid:
  "\<bar>t\<bar> \<le> 8640000000000000 \<Longrightarrow> \<exists>s. toISOString (TimeValue t) = Inr s"
  by (simp add: toISOString.simps Let_def split: prod.splits)

text \<open>
  C4: when \<open>new URL\<close> accepts the base URL followed by \<open>/message\<close> and returns the
  URL \<open>u\<close>, \<open>send\<close> with \<open>skipPhoneValidation\<close> set to \<open>b\<close> appends the pair
  \<open>skipPhoneValidation\<close>, \<open>b.toString()\<close> to the parameters of \<open>u\<close> and hands over the
  serialisation; without the options argument, or with the option undefined, it
  hands over the serialisation of \<open>u\<close> as parsed. For a URL parsed without query and
  fragment that is the URL followed by \<open>?skipPhoneValidation=true\<close> or
  \<open>?skipPhoneValidation=false\<close> when the option is set, and the URL alone otherwise.
\<close>

theorem C4_skipPhoneValidation:
  assumes "newURL (baseUrl c @ js ''/message'') = Inr u"
  shows "(calls newURL c (Send request options) w = [k] \<longrightarrow>
            send newURL c request options w = call (httpClient c) k w)
       \<and> map request_url
           (calls newURL c (Send request (Some \<lparr>skipPhoneValidation = Some b\<rparr>)) w)
           = [location u @ js ''?''
              @ urlencoded_serialize
                  (searchParams u @ [(js ''skipPhoneValidation'', bool_toString b)])
              @ (case fragment u of None \<Rightarrow> [] | Some f \<Rightarrow> js ''#'' @ f)]
       \<and> map request_url (calls newURL c (Send request None) w) = [URL_toString u]
       \<and> map request_url
           (calls newURL c (Send request (Some \<lparr>skipPhoneValidation = None\<rparr>)) w)
           = [URL_toString u]
       \<and> (query u = None \<and> searchParams u = [] \<and> fragment u = None \<longrightarrow>
            map request_url
              (calls newURL c (Send request (Some \<lparr>skipPhoneValidation = Some True\<rparr>)) w)
              = [location u @ js ''?skipPhoneValidation=true'']
          \<and> map request_url
              (calls newURL c (Send request (Some \<lparr>skipPhoneValidation = Some False\<rparr>)) w)
              = [location u @ js ''?skipPhoneValidation=false'']
          \<and> map request_url (calls newURL c (Send request None) w) = [location u]
          \<and> map request_url
              (calls newURL c (Send request (Some \<lparr>skipPhoneValidation = None\<rparr>)) w)
              = [location u])"
proof -
  have set: "map request_url
           (calls newURL c (Send request (Some \<lparr>skipPhoneValidation = Some b\<rparr>)) w)
           = [location u @ js ''?''
              @ urlencoded_serialize
                  (searchParams u @ [(js ''skipPhoneValidation'', bool_toString b)])
              @ (case fragment u of None \<Rightarrow> [] | Some f \<Rightarrow> js ''#'' @ f)]" for b
    using calls_Send [of newURL c u, OF assms] by (simp add: URL_toString_append)
  have unset: "map request_url (calls newURL c (Send request None) w) = [URL_toString u]"
    "map request_url
           (calls newURL c (Send request (Some \<lparr>skipPhoneValidation = None\<rparr>)) w)
           = [URL_toString u]"
    using calls_Send [of newURL c u, OF assms] by simp_all
  have fresh: "URL_toString u = location u"
    if "query u = None \<and> searchParams u = [] \<and> fragment u = None"
    using that by (simp add: URL_toString_def)
  have "location u @ js ''?'' @ urlencoded_serialize [(js ''skipPhoneValidation'', bool_toString True)]
          = location u @ js ''?skipPhoneValidation=true''"
       "location u @ js ''?'' @ urlencoded_serialize [(js ''skipPhoneValidation'', bool_toString False)]
          = location u @ js ''?skipPhoneValidation=false''"
    by (simp_all add: bool_toString_def urlencoded_names) (simp_all add: js_def)
  moreover have link: "calls newURL c (Send request options) w = [k] \<longrightarrow>
                         send newURL c request options w = call (httpClient c) k w"
    using invoke_call [of newURL c "Send request options" w k] by simp
  ultimately show ?thesis
    by (intro conjI [OF link]) (use set [of True] set [of False] unset fresh set [of b] in simp)
qed

theorem C4_skipPhoneValidation_witness:
  "map request_url
     (calls plain_newURL login_client
        (Send hello_message (Some \<lparr>skipPhoneValidation = Some True\<rparr>)) login_world)
     = [js ''https://api.sms-gate.app/3rdparty/v1/message?skipPhoneValidation=true'']
   \<and> map request_url (calls plain_newURL login_client (Send hello_message None) login_world)
     = [js ''https://api.sms-gate.app/3rdparty/v1/message'']"
proof -
  have parsed: "plain_newURL (baseUrl login_client @ js ''/message'')
                  = Inr (unchanged (js ''https://api.sms-gate.app/3rdparty/v1/message''))"
    using plain_newURL_message by (simp add: login_client_def BASE_URL_def js_def)
  have fresh: "query (unchanged s) = None \<and> searchParams (unchanged s) = []
                 \<and> fragment (unchanged s) = None" for s
    by (simp add: unchanged_def)
  note inst = C4_skipPhoneValidation [where newURL = plain_newURL and c = login_client
        and u = "unchanged (js ''https://api.sms-gate.app/3rdparty/v1/message'')"
        and request = hello_message and b = True and w = login_world, OF parsed]
  note cases = inst [THEN conjunct2, THEN conjunct2, THEN conjunct2, THEN conjunct2, THEN mp,
      OF fresh]
  note set = cases [THEN conjunct1]
  note unset = cases [THEN conjunct2, THEN conjunct2, THEN conjunct1]
  have url1: "location (unchanged (js ''https://api.sms-gate.app/3rdparty/v1/message''))
                @ js ''?skipPhoneValidation=true''
              = js ''https://api.sms-gate.app/3rdparty/v1/message?skipPhoneValidation=true''"
    by (simp add: unchanged_def js_def)
  have url2: "location (unchanged (js ''https://api.sms-gate.app/3rdparty/v1/message''))
              = js ''https://api.sms-gate.app/3rdparty/v1/message''"
    by (simp add: unchanged_def)
  show ?thesis
    by (intro conjI set [unfolded url1] unset [unfolded url2])
qed

text \<open>
  C5: when \<open>new URL\<close> accepts the base URL followed by \<open>/logs\<close> and returns a URL
  without query and fragment, \<open>getLogs\<close> hands over that URL alone when no date is
  supplied, followed by \<open>?from=\<close> or \<open>?to=\<close> and the date's ISO string when one date
  is supplied, and by \<open>?from=\<close>...\<open>&to=\<close>... when both are. The parameter of the
  URL object holds the ISO string itself; in the URL string it is written in the
  form-urlencoded way, each colon as \<open>%3A\<close>. A date that is supplied but invalid makes
  \<open>getLogs\<close> reject with the \<open>RangeError\<close> of \<open>toISOString\<close>, without a call.
\<close>

theorem C5_getLogs_query:
  assumes "newURL (baseUrl c @ js ''/logs'') = Inr u"
    and "query u = None" and "searchParams u = []" and "fragment u = None"
  shows "(calls newURL c (GetLogs d1 d2) w = [k] \<longrightarrow>
            getLogs newURL c d1 d2 w = call (httpClient c) k w)
       \<and> calls newURL c (GetLogs None None) w
           = [GetRequest (location u) (spread (deref w (defaultHeaders c)) [])]
       \<and> (toISOString d = Inr s \<longrightarrow>
            calls newURL c (GetLogs (Some d) None) w
              = [GetRequest (location u @ js ''?from='' @ urlencoded_string s)
                   (spread (deref w (defaultHeaders c)) [])]
          \<and> calls newURL c (GetLogs None (Some d)) w
              = [GetRequest (location u @ js ''?to='' @ urlencoded_string s)
                   (spread (deref w (defaultHeaders c)) [])]
          \<and> searchParams (searchParams_append (js ''from'') s u) = [(js ''from'', s)])
       \<and> (toISOString d = Inr s \<and> toISOString d' = Inr s' \<longrightarrow>
            calls newURL c (GetLogs (Some d) (Some d')) w
              = [GetRequest (location u @ js ''?from='' @ urlencoded_string s
                               @ js ''&to='' @ urlencoded_string s')
                   (spread (deref w (defaultHeaders c)) [])]
          \<and> searchParams (searchParams_append (js ''to'') s'
                             (searchParams_append (js ''from'') s u))
              = [(js ''from'', s), (js ''to'', s')])
       \<and> (toISOString d = Inl e \<longrightarrow>
            calls newURL c (GetLogs (Some d) t2) w = []
          \<and> invoke newURL c (GetLogs (Some d) t2) w = (Rejected e, w)
          \<and> calls newURL c (GetLogs None (Some d)) w = []
          \<and> invoke newURL c (GetLogs None (Some d)) w = (Rejected e, w))"
proof -
  have bare: "URL_toString u = location u"
    using assms(2-4) by (simp add: URL_toString_def)
  have one: "URL_toString (searchParams_append name s u)
               = location u @ js ''?'' @ urlencoded_string name @ js ''='' @ urlencoded_string s"
    for name s
    using assms(3,4) by (simp add: URL_toString_append)
  have two: "URL_toString (searchParams_append name' s' (searchParams_append name s u))
               = location u @ js ''?'' @ urlencoded_string name @ js ''='' @ urlencoded_string s
                 @ js ''&'' @ urlencoded_string name' @ js ''='' @ urlencoded_string s'"
    for name s name' s'
    using assms(3,4) by (simp add: URL_toString_append searchParams_append_sel)
  have lits: "js ''?'' @ js ''from'' @ js ''='' @ x = js ''?from='' @ x"
    "js ''?'' @ js ''to'' @ js ''='' @ x = js ''?to='' @ x"
    "js ''&'' @ js ''to'' @ js ''='' @ x = js ''&to='' @ x" for x
    by (simp_all add: js_def)
  have link: "calls newURL c (GetLogs d1 d2) w = [k] \<longrightarrow>
                getLogs newURL c d1 d2 w = call (httpClient c) k w"
    using invoke_call [of newURL c "GetLogs d1 d2" w k] by simp
  show ?thesis
    by (intro conjI [OF link])
       (use calls_GetLogs [of newURL c u, OF assms(1)] assms(3) in
         \<open>auto simp: append_date_def bare one two urlencoded_names lits searchParams_append_sel
            mock_defs getLogs_def assms(1)\<close>)
qed

theorem C5_getLogs_query_witness:
  "calls plain_newURL login_client
     (GetLogs (Some (TimeValue 1704067200000)) (Some (TimeValue 1704070800000))) login_world
     = [GetRequest
          (js ''https://api.sms-gate.app/3rdparty/v1/logs?from=2024-01-01T00%3A00%3A00.000Z&to=2024-01-01T01%3A00%3A00.000Z'')
          [(js ''User-Agent'', js ''android-sms-gateway/2.0 (client; js)''),
           (js ''Authorization'', js ''Basic bG9naW46cGFzc3dvcmQ='')]]
   \<and> calls plain_newURL login_client (GetLogs (Some (TimeValue 1704067200000)) None) login_world
     = [GetRequest
          (js ''https://api.sms-gate.app/3rdparty/v1/logs?from=2024-01-01T00%3A00%3A00.000Z'')
          [(js ''User-Agent'', js ''android-sms-gateway/2.0 (client; js)''),
           (js ''Authorization'', js ''Basic bG9naW46cGFzc3dvcmQ='')]]
   \<and> calls plain_newURL login_client (GetLogs None None) login_world
     = [GetRequest (js ''https://api.sms-gate.app/3rdparty/v1/logs'')
          [(js ''User-Agent'', js ''android-sms-gateway/2.0 (client; js)''),
           (js ''Authorization'', js ''Basic bG9naW46cGFzc3dvcmQ='')]]
   \<and> invoke plain_newURL login_client (GetLogs (Some InvalidDate) None) login_world
     = (Rejected RangeError, login_world)"
proof -
  have parsed: "plain_newURL (baseUrl login_client @ js ''/logs'')
                  = Inr (unchanged (js ''https://api.sms-gate.app/3rdparty/v1/logs''))"
    using plain_newURL_logs by (simp add: login_client_def BASE_URL_def js_def)
  have hs: "spread (deref login_world (defaultHeaders login_client)) []
              = [(js ''User-Agent'', js ''android-sms-gateway/2.0 (client; js)''),
                 (js ''Authorization'', js ''Basic bG9naW46cGFzc3dvcmQ='')]"
    by (simp add: spread_def deref_def login_world_def login_client_def js_inject)
  have fresh: "query (unchanged s) = None" "searchParams (unchanged s) = []"
    "fragment (unchanged s) = None" "location (unchanged s) = s" for s
    by (simp_all add: unchanged_def)
  note valid = C5_getLogs_query [where newURL = plain_newURL and c = login_client
      and u = "unchanged (js ''https://api.sms-gate.app/3rdparty/v1/logs'')" and w = login_world
      and d = "TimeValue 1704067200000" and s = "js ''2024-01-01T00:00:00.000Z''"
      and d' = "TimeValue 1704070800000" and s' = "js ''2024-01-01T01:00:00.000Z''"
      and e = RangeError and ?t2.0 = None,
      OF parsed fresh(1-3), THEN conjunct2]
  note invalid = C5_getLogs_query [where newURL = plain_newURL and c = login_client
      and u = "unchanged (js ''https://api.sms-gate.app/3rdparty/v1/logs'')" and w = login_world
      and d = InvalidDate and s = "js ''2024-01-01T00:00:00.000Z''"
      and d' = "TimeValue 1704070800000" and s' = "js ''2024-01-01T01:00:00.000Z''"
      and e = RangeError and ?t2.0 = None,
      OF parsed fresh(1-3), THEN conjunct2]
  have joins:
    "js ''https://api.sms-gate.app/3rdparty/v1/logs'' @ js ''?from=''
       @ js ''2024-01-01T00%3A00%3A00.000Z'' @ js ''&to='' @ js ''2024-01-01T01%3A00%3A00.000Z''
     = js ''https://api.sms-gate.app/3rdparty/v1/logs?from=2024-01-01T00%3A00%3A00.000Z&to=2024-01-01T01%3A00%3A00.000Z''"
    "js ''https://api.sms-gate.app/3rdparty/v1/logs'' @ js ''?from=''
       @ js ''2024-01-01T00%3A00%3A00.000Z''
     = js ''https://api.sms-gate.app/3rdparty/v1/logs?from=2024-01-01T00%3A00%3A00.000Z''"
    by (simp_all add: js_def)
  show ?thesis
    using valid invalid(1) [THEN conjunct2, THEN conjunct2, THEN conjunct2]
    by (simp add: toISOString_fixtures urlencoded_fixtures hs fresh joins
         )
qed

section \<open>Request bodies\<close>

text \<open>
  C6: the body \<open>exportInbox\<close> posts is a new object with the keys \<open>deviceId\<close>,
  \<open>since\<close> and \<open>until\<close>: the device id as given and the two dates as the strings
  \<open>toISOString\<close> returns for them. When \<open>toISOString\<close> throws for one of them, the
  operation rejects with that error and posts nothing.
\<close>

theorem C6_exportInbox_body:
  "(calls newURL c (ExportInbox request) w = [k] \<longrightarrow>
      exportInbox c request w = call (httpClient c) k w)
   \<and> (toISOString (since request) = Inr s \<and> toISOString (until request) = Inr u \<longrightarrow>
      calls newURL c (ExportInbox request) w
        = [PostRequest (baseUrl c @ js ''/inbox/export'')
             (VObject [(js ''deviceId'', VString (deviceId request)),
                       (js ''since'', VString s), (js ''until'', VString u)])
             (spread (deref w (defaultHeaders c))
                [(js ''Content-Type'', js ''application/json'')])])
   \<and> (toISOString (since request) = Inl e \<longrightarrow>
        calls newURL c (ExportInbox request) w = []
      \<and> fst (invoke newURL c (ExportInbox request) w) = Rejected e)
   \<and> (toISOString (since request) = Inr s \<and> toISOString (until request) = Inl e \<longrightarrow>
        calls newURL c (ExportInbox request) w = []
      \<and> fst (invoke newURL c (ExportInbox request) w) = Rejected e)"
proof -
  have link: "calls newURL c (ExportInbox request) w = [k] \<longrightarrow>
                exportInbox c request w = call (httpClient c) k w"
    using invoke_call [of newURL c "ExportInbox request" w k] by simp
  show ?thesis
    by (intro conjI [OF link]) (simp add: mock_defs exportInbox_def)
qed

theorem C6_exportInbox_body_witness:
  "calls plain_newURL login_client (ExportInbox export_request) login_world
     = [PostRequest (js ''https://api.sms-gate.app/3rdparty/v1/inbox/export'')
          (VObject [(js ''deviceId'', VString (js ''test-device-id'')),
                    (js ''since'', VString (js ''2024-01-01T00:00:00.000Z'')),
                    (js ''until'', VString (js ''2024-01-02T00:00:00.000Z''))])
          [(js ''Content-Type'', js ''application/json''),
           (js ''User-Agent'', js ''android-sms-gateway/2.0 (client; js)''),
           (js ''Authorization'', js ''Basic bG9naW46cGFzc3dvcmQ='')]]
   \<and> fst (invoke plain_newURL login_client
             (ExportInbox (export_request\<lparr>until := InvalidDate\<rparr>)) login_world)
     = Rejected RangeError"
proof -
  have hs: "spread (deref login_world (defaultHeaders login_client))
              [(js ''Content-Type'', js ''application/json'')]
              = [(js ''Content-Type'', js ''application/json''),
                 (js ''User-Agent'', js ''android-sms-gateway/2.0 (client; js)''),
                 (js ''Authorization'', js ''Basic bG9naW46cGFzc3dvcmQ='')]"
    by (simp add: spread_def deref_def login_world_def login_client_def js_inject)
  have url: "baseUrl login_client @ js ''/inbox/export''
               = js ''https://api.sms-gate.app/3rdparty/v1/inbox/export''"
    by (simp add: login_client_def BASE_URL_def js_def)
  show ?thesis
    using C6_exportInbox_body [where request = export_request
        and s = "js ''2024-01-01T00:00:00.000Z''" and u = "js ''2024-01-02T00:00:00.000Z''"
        and newURL = plain_newURL and c = login_client and w = login_world and e = RangeError,
        THEN conjunct2]
      C6_exportInbox_body [where request = "export_request\<lparr>until := InvalidDate\<rparr>"
        and s = "js ''2024-01-01T00:00:00.000Z''" and u = "js ''2024-01-02T00:00:00.000Z''"
        and newURL = plain_newURL and c = login_client and w = login_world and e = RangeError,
        THEN conjunct2]
    by (simp add: export_request_def toISOString_fixtures hs url)
qed

text \<open>
  C7: \<open>send\<close>, \<open>registerWebhook\<close>, \<open>updateSettings\<close> and \<open>patchSettings\<close> hand the
  caller's object to the transport as the body, unchanged, whatever the object is; a
  transport that echoes the body back makes the operation fulfil with the caller's
  object. (\<open>send\<close> makes its call when \<open>new URL\<close> accepts the URL.) For the message
  with only \<open>message\<close> and \<open>phoneNumbers\<close> set, the body is that object, with exactly
  these two keys.
\<close>

theorem C7_body_round_trip:
  "(calls newURL c op w = [k] \<longrightarrow> invoke newURL c op w = call (httpClient c) k w)
   \<and> calls newURL c (RegisterWebhook request) w
     = [PostRequest (baseUrl c @ js ''/webhooks'') request
          (spread (deref w (defaultHeaders c)) [(js ''Content-Type'', js ''application/json'')])]
   \<and> calls newURL c (UpdateSettings request) w
     = [PutRequest (baseUrl c @ js ''/settings'') request
          (spread (deref w (defaultHeaders c)) [(js ''Content-Type'', js ''application/json'')])]
   \<and> calls newURL c (PatchSettings request) w
     = [PatchRequest (baseUrl c @ js ''/settings'') request
          (spread (deref w (defaultHeaders c)) [(js ''Content-Type'', js ''application/json'')])]
   \<and> (newURL (baseUrl c @ js ''/message'') = Inr u \<longrightarrow>
        map request_body (calls newURL c (Send request options) w) = [Some request])
   \<and> (httpClient c = echoHttpClient \<longrightarrow>
        fst (registerWebhook c request w) = Fulfilled request
      \<and> fst (updateSettings c request w) = Fulfilled request
      \<and> fst (patchSettings c request w) = Fulfilled request
      \<and> (newURL (baseUrl c @ js ''/message'') = Inr u \<longrightarrow>
           fst (send newURL c request options w) = Fulfilled request))"
proof -
  have link: "calls newURL c op w = [k] \<longrightarrow> invoke newURL c op w = call (httpClient c) k w"
    using invoke_call [of newURL c op w k] by simp
  show ?thesis
    by (intro conjI [OF link])
       (simp add: mock_defs op_defs echoHttpClient_def split: option.splits)
qed

theorem C7_body_round_trip_witness:
  "fst (send plain_newURL
          \<lparr>baseUrl = BASE_URL, httpClient = echoHttpClient, defaultHeaders = 0\<rparr>
          hello_message None login_world) = Fulfilled hello_message
   \<and> map request_body
         (calls plain_newURL
            \<lparr>baseUrl = BASE_URL, httpClient = echoHttpClient, defaultHeaders = 0\<rparr>
            (Send hello_message None) login_world) = [Some hello_message]
   \<and> object_keys hello_message = [js ''message'', js ''phoneNumbers'']"
proof -
  have parsed: "plain_newURL
                  (baseUrl \<lparr>baseUrl = BASE_URL, httpClient = echoHttpClient :: request list HttpClient,
                            defaultHeaders = 0\<rparr> @ js ''/message'')
                  = Inr (unchanged (js ''https://api.sms-gate.app/3rdparty/v1/message''))"
    using plain_newURL_message by (simp add: BASE_URL_def js_def)
  note inst = C7_body_round_trip [where newURL = plain_newURL
      and c = "\<lparr>baseUrl = BASE_URL, httpClient = echoHttpClient, defaultHeaders = 0\<rparr>"
      and request = hello_message and w = login_world
      and u = "unchanged (js ''https://api.sms-gate.app/3rdparty/v1/message'')"
      and options = None, THEN conjunct2]
  have body: "map request_body
         (calls plain_newURL
            \<lparr>baseUrl = BASE_URL, httpClient = echoHttpClient, defaultHeaders = 0\<rparr>
            (Send hello_message None) login_world) = [Some hello_message]"
    by (rule inst [THEN conjunct2, THEN conjunct2, THEN conjunct2, THEN conjunct1, THEN mp,
          OF parsed])
  have echo: "fst (send plain_newURL
          \<lparr>baseUrl = BASE_URL, httpClient = echoHttpClient, defaultHeaders = 0\<rparr>
          hello_message None login_world) = Fulfilled hello_message"
    using inst [THEN conjunct2, THEN conjunct2, THEN conjunct2, THEN conjunct2] parsed
    by simp
  have keys: "object_keys hello_message = [js ''message'', js ''phoneNumbers'']"
    by (simp add: hello_message_def)
  show ?thesis
    by (intro conjI echo body keys)
qed

section \<open>The stored headers\<close>

lemma invoke_no_call_frame:
  "calls newURL c op w = [] \<Longrightarrow> a < length (heap w) \<Longrightarrow>
     a < length (heap (snd (invoke newURL c op w)))
     \<and> deref (snd (invoke newURL c op w)) a = deref w a"
  by (cases op) (auto simp: mock_defs op_defs nth_append split: sum.splits)

lemma call_frame:
  assumes "keeps_other_objects http" and "a < length (heap w)"
  shows "a < length (heap (snd (call http k w))) \<and> deref (snd (call http k w)) a = deref w a"
proof -
  let ?w1 = "w\<lparr>heap := heap w @ [request_headers k]\<rparr>"
  have step: "keeps_others (length (heap w)) ?w1 w' \<Longrightarrow>
                a < length (heap w') \<and> deref w' a = deref w a" for w'
    using assms(2) by (auto simp: keeps_others_def deref_def nth_append)
  from assms(1) have
    "keeps_others (length (heap w)) ?w1 (snd (get http url (length (heap w)) ?w1))"
    "keeps_others (length (heap w)) ?w1 (snd (post http url b (length (heap w)) ?w1))"
    "keeps_others (length (heap w)) ?w1 (snd (put http url b (length (heap w)) ?w1))"
    "keeps_others (length (heap w)) ?w1 (snd (patch http url b (length (heap w)) ?w1))"
    "keeps_others (length (heap w)) ?w1 (snd (delete http url (length (heap w)) ?w1))"
    for url b
    unfolding keeps_other_objects_def by blast+
  then show ?thesis
    by (cases k) (simp_all add: alloc_def step)
qed

lemma invoke_frame:
  assumes "keeps_other_objects (httpClient c)" and "a < length (heap w)"
  shows "a < length (heap (snd (invoke newURL c op w)))
       \<and> deref (snd (invoke newURL c op w)) a = deref w a"
proof (cases "calls newURL c op w")
  case Nil
  then show ?thesis by (rule invoke_no_call_frame [OF _ assms(2)])
next
  case (Cons k ks)
  with calls_length [of newURL c op w] have "calls newURL c op w = [k]" by simp
  then show ?thesis
    using call_frame [OF assms] by (simp add: invoke_call)
qed

lemma run_frame:
  assumes "keeps_other_objects (httpClient c)"
  shows "a < length (heap w) \<Longrightarrow>
           a < length (heap (run newURL c ops w)) \<and> deref (run newURL c ops w) a = deref w a"
proof (induction ops arbitrary: w)
  case Nil
  then show ?case by simp
next
  case (Cons op ops)
  from invoke_frame [OF assms Cons.prems, of newURL op]
  have step: "a < length (heap (snd (invoke newURL c op w)))"
    and same: "deref (snd (invoke newURL c op w)) a = deref w a"
    by simp_all
  from Cons.IH [OF step] same show ?case by simp
qed

lemma keeps_other_objects_clearing: "keeps_other_objects (clearingHttpClient r)"
  by (simp add: keeps_other_objects_def keeps_others_def clearingHttpClient_def
        clear_object_def deref_def)

lemma keeps_other_objects_mock: "keeps_other_objects (mockHttpClient r)"
  by (simp add: keeps_other_objects_def keeps_others_def mockHttpClient_def record_call_def
        deref_def)

lemma keeps_other_objects_echo: "keeps_other_objects echoHttpClient"
  by (simp add: keeps_other_objects_def keeps_others_def echoHttpClient_def)

text \<open>
  C8: the client record (\<open>baseUrl\<close>, \<open>httpClient\<close> and the reference
  \<open>defaultHeaders\<close>) is only read by the operations; none of them returns or updates
  a client. For the header object the reference points to: an operation that makes a
  call builds the header object of the call as a new object, the spread of the stored
  one over \<open>Content-Type\<close> when the operation has a body and over nothing otherwise;
  the new object is not the stored one, and allocating it leaves the stored one as it
  was. So the transport is never handed the stored object, and with a transport that
  changes no object but the one it is handed, the stored headers after the operation
  are the stored headers before it, whether the operation calls or rejects.
\<close>

theorem C8_stored_headers_unchanged:
  assumes "defaultHeaders c < length (heap w)"
  shows "(calls newURL c op w = [k] \<longrightarrow>
            invoke newURL c op w = call (httpClient c) k w
          \<and> request_headers k
              = spread (deref w (defaultHeaders c))
                  (if carries_body op then [(js ''Content-Type'', js ''application/json'')]
                   else [])
          \<and> fst (alloc (request_headers k) w) \<noteq> defaultHeaders c
          \<and> deref (snd (alloc (request_headers k) w)) (fst (alloc (request_headers k) w))
              = request_headers k
          \<and> deref (snd (alloc (request_headers k) w)) (defaultHeaders c)
              = deref w (defaultHeaders c))
       \<and> (keeps_other_objects (httpClient c) \<longrightarrow>
            deref (snd (invoke newURL c op w)) (defaultHeaders c) = deref w (defaultHeaders c)
          \<and> deref (run newURL c ops w) (defaultHeaders c) = deref w (defaultHeaders c))"
proof (intro conjI impI)
  assume k: "calls newURL c op w = [k]"
  show "invoke newURL c op w = call (httpClient c) k w"
    by (rule invoke_call [OF k])
  show "request_headers k
          = spread (deref w (defaultHeaders c))
              (if carries_body op then [(js ''Content-Type'', js ''application/json'')] else [])"
    using calls_headers [OF k] calls_body [OF k] by (cases "request_body k") auto
  show "fst (alloc (request_headers k) w) \<noteq> defaultHeaders c"
    using assms by (simp add: alloc_def)
  show "deref (snd (alloc (request_headers k) w)) (fst (alloc (request_headers k) w))
          = request_headers k"
    by (simp add: alloc_def deref_def)
  show "deref (snd (alloc (request_headers k) w)) (defaultHeaders c) = deref w (defaultHeaders c)"
    using assms by (simp add: alloc_def deref_def nth_append)
next
  assume keeps: "keeps_other_objects (httpClient c)"
  show "deref (snd (invoke newURL c op w)) (defaultHeaders c) = deref w (defaultHeaders c)"
    using invoke_frame [OF keeps assms] by simp
next
  assume keeps: "keeps_other_objects (httpClient c)"
  show "deref (run newURL c ops w) (defaultHeaders c) = deref w (defaultHeaders c)"
    using run_frame [OF keeps assms] by simp
qed

theorem C8_stored_headers_unchanged_witness:
  "snd (invoke plain_newURL
          \<lparr>baseUrl = BASE_URL, httpClient = clearingHttpClient (Fulfilled VUndefined),
            defaultHeaders = 0\<rparr>
          (GetState (js ''123'')) login_world)
     = \<lparr>heap = [[(js ''User-Agent'', js ''android-sms-gateway/2.0 (client; js)''),
                  (js ''Authorization'', js ''Basic bG9naW46cGFzc3dvcmQ='')], []],
        net = []\<rparr>
   \<and> deref (snd (invoke plain_newURL
                   \<lparr>baseUrl = BASE_URL, httpClient = clearingHttpClient (Fulfilled VUndefined),
                     defaultHeaders = 0\<rparr>
                   (GetState (js ''123'')) login_world)) 0
     = deref login_world 0
   \<and> deref (run plain_newURL
               \<lparr>baseUrl = BASE_URL, httpClient = clearingHttpClient (Fulfilled VUndefined),
                 defaultHeaders = 0\<rparr>
               [GetState (js ''123''), Send hello_message None, DeleteDevice (js ''test'')]
               login_world) 0
     = deref login_world 0"
proof -
  have cleared: "snd (invoke plain_newURL
          \<lparr>baseUrl = BASE_URL, httpClient = clearingHttpClient (Fulfilled VUndefined),
            defaultHeaders = 0\<rparr>
          (GetState (js ''123'')) login_world)
     = \<lparr>heap = [[(js ''User-Agent'', js ''android-sms-gateway/2.0 (client; js)''),
                  (js ''Authorization'', js ''Basic bG9naW46cGFzc3dvcmQ='')], []],
        net = []\<rparr>"
    by (simp add: getState_def alloc_def clearingHttpClient_def clear_object_def login_world_def)
  have allocated: "defaultHeaders
                     \<lparr>baseUrl = BASE_URL,
                       httpClient = clearingHttpClient (Fulfilled VUndefined) :: request list HttpClient,
                       defaultHeaders = 0\<rparr> < length (heap login_world)"
    by (simp add: login_world_def)
  note kept = C8_stored_headers_unchanged [OF allocated,
      where newURL = plain_newURL and op = "GetState (js ''123'')"
        and ops = "[GetState (js ''123''), Send hello_message None, DeleteDevice (js ''test'')]",
      THEN conjunct2, THEN mp, simplified, OF keeps_other_objects_clearing]
  show ?thesis
    using cleared kept by simp
qed

section \<open>Failures of the transport\<close>

text \<open>
  C9: \<open>deleteWebhook\<close> and \<open>deleteDevice\<close> are one call of the transport's \<open>delete\<close>
  and return its promise: the outcome of the operation, and the world after it, are
  those of that call. Whatever the transport settles with - fulfilment with no
  value, rejection with any error, or nothing at all - the operation settles with
  the same, and the mock records exactly one call.
\<close>

theorem C9_delete_propagates:
  "deleteWebhook c webhookId w
     = delete (httpClient c) (baseUrl c @ js ''/webhooks/'' @ webhookId) (length (heap w))
         (w\<lparr>heap := heap w @ [spread (deref w (defaultHeaders c)) []]\<rparr>)
   \<and> deleteDevice c device w
     = delete (httpClient c) (baseUrl c @ js ''/devices/'' @ device) (length (heap w))
         (w\<lparr>heap := heap w @ [spread (deref w (defaultHeaders c)) []]\<rparr>)
   \<and> fst (deleteWebhook \<lparr>baseUrl = b, httpClient = mockHttpClient r, defaultHeaders = a\<rparr>
            webhookId w') = r
   \<and> fst (deleteDevice \<lparr>baseUrl = b, httpClient = mockHttpClient r, defaultHeaders = a\<rparr>
            device w') = r
   \<and> net (snd (deleteWebhook
                   \<lparr>baseUrl = b, httpClient = mockHttpClient r, defaultHeaders = a\<rparr>
                   webhookId w'))
     = net w' @ [DeleteRequest (b @ js ''/webhooks/'' @ webhookId) (spread (deref w' a) [])]
   \<and> net (snd (deleteDevice
                   \<lparr>baseUrl = b, httpClient = mockHttpClient r, defaultHeaders = a\<rparr>
                   device w'))
     = net w' @ [DeleteRequest (b @ js ''/devices/'' @ device) (spread (deref w' a) [])]"
  by (simp add: deleteWebhook_def deleteDevice_def alloc_def deref_def mockHttpClient_def
        record_call_def)

theorem C9_delete_propagates_witness:
  "fst (deleteWebhook
          \<lparr>baseUrl = BASE_URL,
            httpClient = mockHttpClient (Rejected (Thrown (VString (js ''offline'')))),
            defaultHeaders = 0\<rparr>
          (js ''test'') login_world)
     = Rejected (Thrown (VString (js ''offline'')))
   \<and> fst (deleteDevice
          \<lparr>baseUrl = BASE_URL, httpClient = mockHttpClient (Fulfilled VUndefined),
            defaultHeaders = 0\<rparr>
          (js ''test-device-id'') login_world)
     = Fulfilled VUndefined"
  using C9_delete_propagates [where b = BASE_URL
        and r = "Rejected (Thrown (VString (js ''offline'')))" and a = 0
        and webhookId = "js ''test''" and w' = login_world]
    C9_delete_propagates [where b = BASE_URL and r = "Fulfilled VUndefined" and a = 0
        and device = "js ''test-device-id''" and w' = login_world]
  by blast

section \<open>Determinism\<close>

lemma calls_cong:
  "baseUrl c1 = baseUrl c2 \<Longrightarrow> deref w1 (defaultHeaders c1) = deref w2 (defaultHeaders c2) \<Longrightarrow>
     calls newURL c1 op w1 = calls newURL c2 op w2"
  by (cases op) (auto simp: mock_defs op_defs split: sum.splits)

lemma invoke_no_call_cong:
  "calls newURL c1 op w1 = [] \<Longrightarrow> baseUrl c1 = baseUrl c2 \<Longrightarrow>
     fst (invoke newURL c1 op w1) = fst (invoke newURL c2 op w2)"
  by (cases op) (auto simp: mock_defs op_defs split: sum.splits)

text \<open>
  C10: two clients constructed with the same login, password and base URL, on any
  two transports and in any two worlds, hand the same URL, body and header content to
  their transports for the same operation with the same arguments, in whatever
  worlds the operations run, as long as each stored header object holds what its
  constructor put there: the recorded calls are equal, each operation is that call on
  its own transport, and when no call is made both reject with the same error.
\<close>

theorem C10_determinism:
  assumes "constructor login password http1 url wa = (Inr c1, wa')"
    and "constructor login password http2 url wb = (Inr c2, wb')"
    and "deref w1 (defaultHeaders c1) = deref wa' (defaultHeaders c1)"
    and "deref w2 (defaultHeaders c2) = deref wb' (defaultHeaders c2)"
  shows "calls newURL c1 op w1 = calls newURL c2 op w2
       \<and> (calls newURL c1 op w1 = [k] \<longrightarrow>
            invoke newURL c1 op w1 = call http1 k w1 \<and> invoke newURL c2 op w2 = call http2 k w2)
       \<and> (calls newURL c1 op w1 = [] \<longrightarrow>
            fst (invoke newURL c1 op w1) = fst (invoke newURL c2 op w2))
       \<and> (keeps_other_objects http1 \<and> keeps_other_objects http2 \<longrightarrow>
            calls newURL c1 op (run newURL c1 ops1 wa')
              = calls newURL c2 op (run newURL c2 ops2 wb'))"
proof -
  have base: "baseUrl c1 = baseUrl c2" "httpClient c1 = http1" "httpClient c2 = http2"
    using constructor_Inr(2) [OF assms(1)] constructor_Inr(2) [OF assms(2)] by simp_all
  have stored: "deref w1 (defaultHeaders c1) = deref w2 (defaultHeaders c2)"
    using constructor_stored [OF assms(1)] constructor_stored [OF assms(2)] assms(3,4) by simp
  have same: "calls newURL c1 op w1 = calls newURL c2 op w2"
    by (rule calls_cong [OF base(1) stored])
  have later: "calls newURL c1 op (run newURL c1 ops1 wa')
                 = calls newURL c2 op (run newURL c2 ops2 wb')"
    if keeps: "keeps_other_objects http1 \<and> keeps_other_objects http2"
  proof -
    have "defaultHeaders c1 < length (heap wa')" "defaultHeaders c2 < length (heap wb')"
      using constructor_Inr(2,3) [OF assms(1)] constructor_Inr(2,3) [OF assms(2)] by simp_all
    then have "deref (run newURL c1 ops1 wa') (defaultHeaders c1) = deref wa' (defaultHeaders c1)"
      and "deref (run newURL c2 ops2 wb') (defaultHeaders c2) = deref wb' (defaultHeaders c2)"
      using keeps base(2,3) run_frame [of c1 "defaultHeaders c1" wa' newURL ops1]
        run_frame [of c2 "defaultHeaders c2" wb' newURL ops2]
      by simp_all
    then have "deref (run newURL c1 ops1 wa') (defaultHeaders c1)
                 = deref (run newURL c2 ops2 wb') (defaultHeaders c2)"
      using constructor_stored [OF assms(1)] constructor_stored [OF assms(2)] by simp
    then show ?thesis
      by (rule calls_cong [OF base(1)])
  qed
  show ?thesis
    using same invoke_call [of newURL c1 op w1 k] invoke_call [of newURL c2 op w2 k] base
      invoke_no_call_cong [of newURL c1 op w1 c2 w2] later
    by auto
qed

theorem C10_determinism_witness:
  "calls plain_newURL login_client (Send hello_message None) login_world
     = calls plain_newURL
         \<lparr>baseUrl = BASE_URL, httpClient = echoHttpClient, defaultHeaders = 1\<rparr>
         (Send hello_message None)
         \<lparr>heap = [[], [(js ''User-Agent'', js ''android-sms-gateway/2.0 (client; js)''),
                        (js ''Authorization'', js ''Basic bG9naW46cGFzc3dvcmQ='')]],
           net = ()\<rparr>
   \<and> calls plain_newURL login_client (Send hello_message None)
       (run plain_newURL login_client [GetState (js ''123''), GetHealth] login_world)
     = calls plain_newURL
         \<lparr>baseUrl = BASE_URL, httpClient = echoHttpClient, defaultHeaders = 1\<rparr>
         (Send hello_message None)
         (run plain_newURL
            \<lparr>baseUrl = BASE_URL, httpClient = echoHttpClient, defaultHeaders = 1\<rparr>
            [DeleteWebhook (js ''test'')]
            \<lparr>heap = [[], [(js ''User-Agent'', js ''android-sms-gateway/2.0 (client; js)''),
                           (js ''Authorization'', js ''Basic bG9naW46cGFzc3dvcmQ='')]],
              net = ()\<rparr>)"
proof -
  have built: "constructor (js ''login'') (js ''password'') echoHttpClient None
                 \<lparr>heap = [[]], net = ()\<rparr>
     = (Inr \<lparr>baseUrl = BASE_URL, httpClient = echoHttpClient, defaultHeaders = 1\<rparr>,
        \<lparr>heap = [[], [(js ''User-Agent'', js ''android-sms-gateway/2.0 (client; js)''),
                        (js ''Authorization'', js ''Basic bG9naW46cGFzc3dvcmQ='')]],
          net = ()\<rparr>)"
    by (simp add: constructor_def btoa_def alloc_def string_defs)
  note inst = C10_determinism [OF login_client_constructed built refl refl,
      where newURL = plain_newURL and op = "Send hello_message None"
        and ?ops1.0 = "[GetState (js ''123''), GetHealth]"
        and ?ops2.0 = "[DeleteWebhook (js ''test'')]"]
  have first: "calls plain_newURL login_client (Send hello_message None) login_world
     = calls plain_newURL
         \<lparr>baseUrl = BASE_URL, httpClient = echoHttpClient, defaultHeaders = 1\<rparr>
         (Send hello_message None)
         \<lparr>heap = [[], [(js ''User-Agent'', js ''android-sms-gateway/2.0 (client; js)''),
                        (js ''Authorization'', js ''Basic bG9naW46cGFzc3dvcmQ='')]],
           net = ()\<rparr>"
    by (rule inst [THEN conjunct1])
  have later: "calls plain_newURL login_client (Send hello_message None)
       (run plain_newURL login_client [GetState (js ''123''), GetHealth] login_world)
     = calls plain_newURL
         \<lparr>baseUrl = BASE_URL, httpClient = echoHttpClient, defaultHeaders = 1\<rparr>
         (Send hello_message None)
         (run plain_newURL
            \<lparr>baseUrl = BASE_URL, httpClient = echoHttpClient, defaultHeaders = 1\<rparr>
            [DeleteWebhook (js ''test'')]
            \<lparr>heap = [[], [(js ''User-Agent'', js ''android-sms-gateway/2.0 (client; js)''),
                           (js ''Authorization'', js ''Basic bG9naW46cGFzc3dvcmQ='')]],
              net = ()\<rparr>)"
    by (rule inst [THEN conjunct2, THEN conjunct2, THEN conjunct2, THEN mp,
          OF conjI [OF keeps_other_objects_mock keeps_other_objects_echo]])
  show ?thesis
    by (intro conjI first later)
qed

end
